theory Spec2Isabelle
  imports Main "HOL-Library.Multiset"
begin

section \<open>JavaScript values and strings\<close>

text \<open>
  A field of a parsed JSON request body. \<open>JUndefined\<close> is an absent field, \<open>JObject\<close> stands
  for any object or array. Of a number only its being zero matters to the handlers below,
  so it is kept as an integer.
\<close>

datatype jsval = JUndefined | JNull | JBool bool | JNum int | JStr string | JObject

text \<open>JavaScript truthiness, as tested by \<^verbatim>\<open>!x\<close> and \<^verbatim>\<open>x || y\<close>.\<close>

fun truthy :: "jsval \<Rightarrow> bool" where
  "truthy JUndefined = False"
| "truthy JNull = False"
| "truthy (JBool b) = b"
| "truthy (JNum n) = (n \<noteq> 0)"
| "truthy (JStr s) = (s \<noteq> [])"
| "truthy JObject = True"

text \<open>
  A string is its list of UTF-16 code units; the model covers the code units below 256
  (Latin-1), one \<^typ>\<open>char\<close> each, so that \<^const>\<open>length\<close> is JavaScript's \<^verbatim>\<open>.length\<close>.
  In that range the white space of \<^verbatim>\<open>trim()\<close> and of the regular expression class \<^verbatim>\<open>\s\<close>
  is TAB, LF, VT, FF, CR, SPACE and NBSP.
\<close>

definition isWhiteSpace :: "char \<Rightarrow> bool" where
  "isWhiteSpace c = (of_char c \<in> {9, 10, 11, 12, 13, 32, 160 :: nat})"

text \<open>
  \<^verbatim>\<open>toLowerCase()\<close> on Latin-1: A-Z and the accented capitals U+00C0-U+00DE (without the
  multiplication sign U+00D7) move up by 32; every other code unit is kept.
\<close>

definition toLowerCase_char :: "char \<Rightarrow> char" where
  "toLowerCase_char c =
     (let n = of_char c :: nat
      in if (65 \<le> n \<and> n \<le> 90) \<or> (192 \<le> n \<and> n \<le> 214) \<or> (216 \<le> n \<and> n \<le> 222)
         then char_of (n + 32) else c)"

definition toLowerCase :: "string \<Rightarrow> string" where
  "toLowerCase s = map toLowerCase_char s"

definition trim :: "string \<Rightarrow> string" where
  "trim s = rev (dropWhile isWhiteSpace (rev (dropWhile isWhiteSpace s)))"

text \<open>
  \<^verbatim>\<open>s.split(' ')\<close>: cuts at every single space, keeping empty pieces; the empty string
  gives one empty piece.
\<close>

fun split_space :: "string \<Rightarrow> string list" where
  "split_space [] = [[]]"
| "split_space (c # cs) =
     (if c = CHR '' '' then [] # split_space cs
      else (case split_space cs of [] \<Rightarrow> [[c]] | p # ps \<Rightarrow> (c # p) # ps))"

text \<open>
  \<^verbatim>\<open>xs.sort(cmp)\<close> for a consistent comparator. The sort is stable, so its result is the
  one stable ordering of the elements; insertion from the right computes it: an element
  goes before the first element of the sorted rest that it does not have to follow.
\<close>

fun insert_by :: "('a \<Rightarrow> 'a \<Rightarrow> int) \<Rightarrow> 'a \<Rightarrow> 'a list \<Rightarrow> 'a list" where
  "insert_by cmp x [] = [x]"
| "insert_by cmp x (y # ys) =
     (if cmp x y \<le> 0 then x # y # ys else y # insert_by cmp x ys)"

definition sort_by :: "('a \<Rightarrow> 'a \<Rightarrow> int) \<Rightarrow> 'a list \<Rightarrow> 'a list" where
  "sort_by cmp xs = foldr (insert_by cmp) xs []"

text \<open>An HTTP response: an error body \<^verbatim>\<open>{error, message}\<close> with its status, or a success
  body with its status.\<close>

datatype 'a response = Failure nat string string | Success nat 'a

section \<open>Session claims\<close>

text \<open>\<^verbatim>\<open>req.user\<close>: the decoded token payload that \<^verbatim>\<open>verifyToken\<close> attaches to the request.
  Times are in seconds since the epoch.\<close>

record identity =
  customerId :: string
  email :: string
  firstName :: string
  lastName :: string

record claims = identity +
  iat :: nat
  expiresAt :: nat

section \<open>Message log (routes/messages.js)\<close>

text \<open>\<open>createdAt\<close> is the instant in milliseconds that \<^verbatim>\<open>new Date().toISOString()\<close> renders
  and \<^verbatim>\<open>new Date(createdAt)\<close> reads back.\<close>

record message =
  msg_id :: string
  bookingId :: string
  msg_customerId :: string
  customerName :: string
  customerEmail :: string
  content :: string
  createdAt :: int
  isFromCustomer :: bool

text \<open>
  The file \<^verbatim>\<open>data/messages.json\<close>: missing, holding a JSON array of message records, or
  holding text that \<^verbatim>\<open>JSON.parse\<close> rejects.
\<close>

datatype messages_file = Missing | Content "message list" | Unparsable

definition ensureStorageExists :: "messages_file \<Rightarrow> messages_file" where
  "ensureStorageExists f = (case f of Missing \<Rightarrow> Content [] | _ \<Rightarrow> f)"

text \<open>\<open>None\<close> is the exception of \<^verbatim>\<open>JSON.parse\<close>.\<close>

definition readMessages :: "messages_file \<Rightarrow> messages_file \<times> message list option" where
  "readMessages f =
     (let f' = ensureStorageExists f
      in (f', case f' of Content ms \<Rightarrow> Some ms | _ \<Rightarrow> None))"

definition writeMessages :: "message list \<Rightarrow> messages_file \<Rightarrow> messages_file" where
  "writeMessages msgs f = (let f' = ensureStorageExists f in Content msgs)"

text \<open>The comparator \<^verbatim>\<open>(a, b) => new Date(b.createdAt) - new Date(a.createdAt)\<close>.\<close>

definition newest_first :: "message \<Rightarrow> message \<Rightarrow> int" where
  "newest_first a b = createdAt b - createdAt a"

text \<open>The body \<^verbatim>\<open>{success: true, messages, count}\<close>.\<close>

type_synonym message_list = "message list \<times> nat"

text \<open>\<^verbatim>\<open>GET /booking/:bookingId\<close>, after \<^verbatim>\<open>verifyToken\<close> has set \<^verbatim>\<open>req.user\<close>.\<close>

definition get_booking_messages ::
  "messages_file \<Rightarrow> claims \<Rightarrow> string \<Rightarrow> messages_file \<times> message_list response" where
  "get_booking_messages f user bid =
     (case readMessages f of
        (f', None) \<Rightarrow> (f', Failure 500 ''Server Error'' ''Failed to fetch messages'')
      | (f', Some allMessages) \<Rightarrow>
          (let bookingMessages =
                 sort_by newest_first (filter (\<lambda>msg. bookingId msg = bid) allMessages)
           in (f', Success 200 (bookingMessages, length bookingMessages))))"

text \<open>
  \<^verbatim>\<open>POST /booking/:bookingId\<close>. The fresh identifier of \<^verbatim>\<open>uuidv4()\<close> and the clock reading of
  \<^verbatim>\<open>new Date()\<close> are inputs. A content that is falsy or not a string takes the last branch.
\<close>

definition customer_name :: "claims \<Rightarrow> string" where
  "customer_name user =
     (let n = trim (firstName user @ '' '' @ lastName user)
      in if n \<noteq> [] then n else ''Customer'')"

definition post_booking_message ::
  "messages_file \<Rightarrow> string \<Rightarrow> int \<Rightarrow> claims \<Rightarrow> string \<Rightarrow> jsval \<Rightarrow> messages_file \<times> message response" where
  "post_booking_message f new_id now user bid body_content =
     (case body_content of
        JStr s \<Rightarrow>
          if \<not> truthy (JStr s) \<or> length (trim s) = 0
          then (f, Failure 400 ''Bad Request'' ''Message content is required'')
          else if length s > 2000
          then (f, Failure 400 ''Bad Request'' ''Message content cannot exceed 2000 characters'')
          else
            (let newMessage = \<lparr> msg_id = new_id, bookingId = bid,
                                msg_customerId = customerId user,
                                customerName = customer_name user,
                                customerEmail = email user,
                                content = trim s,
                                createdAt = now,
                                isFromCustomer = True \<rparr>
             in case readMessages f of
                  (f', None) \<Rightarrow> (f', Failure 500 ''Server Error'' ''Failed to send message'')
                | (f', Some allMessages) \<Rightarrow>
                    (writeMessages (allMessages @ [newMessage]) f', Success 201 newMessage))
      | _ \<Rightarrow> (f, Failure 400 ''Bad Request'' ''Message content is required''))"

text \<open>\<^verbatim>\<open>GET /all\<close>.\<close>

definition get_all_messages ::
  "messages_file \<Rightarrow> claims \<Rightarrow> messages_file \<times> message_list response" where
  "get_all_messages f user =
     (case readMessages f of
        (f', None) \<Rightarrow> (f', Failure 500 ''Server Error'' ''Failed to fetch messages'')
      | (f', Some allMessages) \<Rightarrow>
          (let customerMessages =
                 sort_by newest_first
                   (filter (\<lambda>msg. msg_customerId msg = customerId user) allMessages)
           in (f', Success 200 (customerMessages, length customerMessages))))"

text \<open>The records a file holds; a missing or unparsable file holds none.\<close>

definition stored :: "messages_file \<Rightarrow> message list" where
  "stored f = (case f of Content ms \<Rightarrow> ms | _ \<Rightarrow> [])"

text \<open>The order the comparator asks for: no message before a newer one.\<close>

definition newest_first_order :: "message \<Rightarrow> message \<Rightarrow> bool" where
  "newest_first_order a b = (createdAt b \<le> createdAt a)"

text \<open>One request to any of the three routes, seen as a change of the file.\<close>

inductive log_step :: "messages_file \<Rightarrow> messages_file \<Rightarrow> bool" where
  listed: "log_step f (fst (get_booking_messages f user bid))"
| appended: "log_step f (fst (post_booking_message f new_id now user bid c))"
| listed_all: "log_step f (fst (get_all_messages f user))"

section \<open>Session tokens\<close>

text \<open>
  Modelled from the spec: the \<^verbatim>\<open>jsonwebtoken\<close> package (\<^verbatim>\<open>jwt.sign\<close>, \<^verbatim>\<open>jwt.verify\<close>) is not
  under src/. A token is a signed blob encoding the customer claims with the instants of
  issue and expiry; it is kept symbolic as the key it was signed with and its payload.
  Signing with \<^verbatim>\<open>expiresIn\<close> sets the expiry that many seconds after the clock reading.
  Verifying fails when the token is missing, cannot be decoded or was signed with another
  key (\<open>JsonWebTokenError\<close>), and at or after the expiry instant (\<open>TokenExpiredError\<close>).
  The wire format is the parameter \<open>decode\<close>; \<open>None\<close> is a string that encodes no token.
\<close>

datatype jwt = Jwt (signing_key: string) (payload: claims)

datatype jwt_error = TokenExpiredError | JsonWebTokenError

definition jwt_sign :: "identity \<Rightarrow> string \<Rightarrow> nat \<Rightarrow> nat \<Rightarrow> jwt" where
  "jwt_sign p secret expiresIn now =
     Jwt secret \<lparr> customerId = customerId p, email = email p,
                  firstName = firstName p, lastName = lastName p,
                  iat = now, expiresAt = now + expiresIn \<rparr>"

definition jwt_verify :: "(string \<Rightarrow> jwt option) \<Rightarrow> string \<Rightarrow> string \<Rightarrow> nat \<Rightarrow> jwt_error + claims" where
  "jwt_verify decode token secret now =
     (if token = [] then Inl JsonWebTokenError
      else case decode token of
             None \<Rightarrow> Inl JsonWebTokenError
           | Some (Jwt key decoded) \<Rightarrow>
               if key \<noteq> secret then Inl JsonWebTokenError
               else if expiresAt decoded \<le> now then Inl TokenExpiredError
               else Inr decoded)"

text \<open>\<^verbatim>\<open>process.env.JWT_SECRET || 'default_dev_secret_change_in_production'\<close>.\<close>

definition JWT_SECRET :: "string option \<Rightarrow> string" where
  "JWT_SECRET env_secret =
     (case env_secret of
        Some s \<Rightarrow> if s \<noteq> [] then s else ''default_dev_secret_change_in_production''
      | None \<Rightarrow> ''default_dev_secret_change_in_production'')"

text \<open>\<^verbatim>\<open>'24h'\<close>, in seconds.\<close>

definition TOKEN_EXPIRY :: nat where
  "TOKEN_EXPIRY = 24 * 60 * 60"

section \<open>Authentication middleware (middleware/auth.js)\<close>

text \<open>The middleware answers the request itself, or attaches the decoded claims as
  \<^verbatim>\<open>req.user\<close> and calls \<^verbatim>\<open>next()\<close>.\<close>

datatype auth_outcome = Denied nat string string | Next claims

text \<open>\<open>authHeader\<close> is \<^verbatim>\<open>req.headers.authorization\<close>: absent or a string.\<close>

definition verifyToken ::
  "(string \<Rightarrow> jwt option) \<Rightarrow> string \<Rightarrow> nat \<Rightarrow> string option \<Rightarrow> auth_outcome" where
  "verifyToken decode secret now authHeader =
     (case authHeader of
        None \<Rightarrow> Denied 401 ''Unauthorized'' ''No authorization token provided''
      | Some h \<Rightarrow>
          if h = [] then Denied 401 ''Unauthorized'' ''No authorization token provided''
          else
            (let parts = split_space h
             in if length parts \<noteq> 2 \<or> parts ! 0 \<noteq> ''Bearer''
                then Denied 401 ''Unauthorized'' ''Invalid authorization header format''
                else
                  (let token = parts ! 1
                   in case jwt_verify decode token secret now of
                        Inr decoded \<Rightarrow> Next decoded
                      | Inl TokenExpiredError \<Rightarrow> Denied 401 ''Unauthorized'' ''Token has expired''
                      | Inl JsonWebTokenError \<Rightarrow> Denied 401 ''Unauthorized'' ''Invalid token'')))"

text \<open>
  The conditions in the words of the specification: the header is exactly
  \<^verbatim>\<open>Bearer <token>\<close>, the token carries a valid signature, the token has expired.
\<close>

definition bearer_shape :: "string \<Rightarrow> bool" where
  "bearer_shape h = (take 7 h = ''Bearer '' \<and> CHR '' '' \<notin> set (drop 7 h))"

definition signature_valid :: "(string \<Rightarrow> jwt option) \<Rightarrow> string \<Rightarrow> string \<Rightarrow> bool" where
  "signature_valid decode secret token =
     (case decode token of None \<Rightarrow> False | Some t \<Rightarrow> signing_key t = secret)"

definition token_expired :: "(string \<Rightarrow> jwt option) \<Rightarrow> nat \<Rightarrow> string \<Rightarrow> bool" where
  "token_expired decode now token =
     (case decode token of None \<Rightarrow> False | Some t \<Rightarrow> expiresAt (payload t) \<le> now)"

section \<open>Login (routes/auth.js)\<close>

record customer =
  cust_id :: string
  cust_email :: string
  cust_phone :: string
  cust_firstName :: string
  cust_lastName :: string

definition mockCustomers :: "customer list" where
  "mockCustomers =
     [\<lparr> cust_id = ''cust-001'', cust_email = ''customer@example.com'',
         cust_phone = ''0400123456'', cust_firstName = ''John'', cust_lastName = ''Smith'' \<rparr>,
      \<lparr> cust_id = ''cust-002'', cust_email = ''jane.doe@example.com'',
         cust_phone = ''0411222333'', cust_firstName = ''Jane'', cust_lastName = ''Doe'' \<rparr>]"

text \<open>\<^verbatim>\<open>phone.replace(/[\s\-\(\)]/g, '')\<close>.\<close>

definition normalizePhone :: "string \<Rightarrow> string" where
  "normalizePhone phone =
     filter (\<lambda>c. \<not> (isWhiteSpace c \<or> c = CHR ''-'' \<or> c = CHR ''('' \<or> c = CHR '')'')) phone"

definition normalizeEmail :: "string \<Rightarrow> string" where
  "normalizeEmail emailStr = trim (toLowerCase emailStr)"

text \<open>The claims put into the token, which are also the \<^verbatim>\<open>customer\<close> object of the answer
  (there under the key \<^verbatim>\<open>id\<close>).\<close>

definition tokenPayload :: "customer \<Rightarrow> identity" where
  "tokenPayload c = \<lparr> customerId = cust_id c, email = cust_email c,
                      firstName = cust_firstName c, lastName = cust_lastName c \<rparr>"

text \<open>
  \<^verbatim>\<open>POST /login\<close>. A truthy field that is not a string has no \<^verbatim>\<open>replace\<close> or \<^verbatim>\<open>toLowerCase\<close>
  method: the call throws and the handler answers 500.
\<close>

definition login :: "string \<Rightarrow> nat \<Rightarrow> jsval \<Rightarrow> jsval \<Rightarrow> (jwt \<times> identity) response" where
  "login secret now body_email body_phone =
     (if \<not> truthy body_email \<or> \<not> truthy body_phone
      then Failure 400 ''Bad Request'' ''Email and phone number are required''
      else case (body_phone, body_email) of
             (JStr phoneStr, JStr emailStr) \<Rightarrow>
               (let normalizedPhone = normalizePhone phoneStr;
                    normalizedEmail = normalizeEmail emailStr
                in case find (\<lambda>c. toLowerCase (cust_email c) = normalizedEmail \<and>
                                   cust_phone c = normalizedPhone) mockCustomers of
                     None \<Rightarrow> Failure 401 ''Unauthorized'' ''Invalid email or phone number''
                   | Some customer \<Rightarrow>
                       (let token = jwt_sign (tokenPayload customer) secret TOKEN_EXPIRY now
                        in Success 200 (token, tokenPayload customer)))
           | _ \<Rightarrow> Failure 500 ''Server Error'' ''An error occurred during login'')"

text \<open>A pair of submitted strings matches a customer when its normal forms are the
  customer's stored email and phone.\<close>

definition matches :: "string \<Rightarrow> string \<Rightarrow> customer \<Rightarrow> bool" where
  "matches emailStr phoneStr c =
     (normalizeEmail emailStr = cust_email c \<and> normalizePhone phoneStr = cust_phone c)"

section \<open>ServiceM8 client (services/servicem8.js)\<close>

text \<open>
  A job object as the routes read it. A field is \<open>None\<close> when the object lacks it;
  the text fields are strings, the amount is a number.
\<close>

record job =
  uuid :: "string option"
  job_address :: "string option"
  job_description :: "string option"
  status :: "string option"
  date :: "string option"
  time :: "string option"
  company_uuid :: "string option"
  generated_job_id :: "string option"
  total_amount :: "int option"
  work_done_description :: "string option"
  job_notes :: "string option"
  contact_first :: "string option"
  contact_last :: "string option"
  contact_phone :: "string option"
  contact_email :: "string option"

text \<open>
  The environment of the client: the configured API key, and what the upstream system
  answers to \<^verbatim>\<open>GET /job.json\<close> and to \<^verbatim>\<open>GET /job/<id>.json\<close>. \<open>None\<close> is a request that throws
  (network failure, or any status outside 2xx, as for an unknown id).
\<close>

record servicem8 =
  SERVICEM8_API_KEY :: "string option"
  job_json :: "job list option"
  job_by_id :: "string \<Rightarrow> job option"

text \<open>\<open>None\<close> is the \<^verbatim>\<open>null\<close> returned without a key; the client is identified by its key.\<close>

definition createApiClient :: "servicem8 \<Rightarrow> string option" where
  "createApiClient env =
     (case SERVICEM8_API_KEY env of
        None \<Rightarrow> None
      | Some apiKey \<Rightarrow> if apiKey = [] then None else Some apiKey)"

definition getMockJobs :: "job list" where
  "getMockJobs =
     [\<lparr> uuid = Some ''job-001-uuid'',
         job_address = Some ''123 Main Street, Sydney NSW 2000'',
         job_description = Some ''Annual HVAC Maintenance'',
         status = Some ''Completed'', date = Some ''2024-11-20'', time = Some ''09:00'',
         company_uuid = Some ''company-001'', generated_job_id = Some ''JOB-2024-001'',
         total_amount = Some 250,
         work_done_description = Some ''Completed full system check and filter replacement'',
         job_notes = None, contact_first = None, contact_last = None,
         contact_phone = None, contact_email = None \<rparr>,
      \<lparr> uuid = Some ''job-002-uuid'',
         job_address = Some ''456 George Street, Melbourne VIC 3000'',
         job_description = Some ''Emergency Plumbing Repair'',
         status = Some ''Quote'', date = Some ''2024-11-25'', time = Some ''14:00'',
         company_uuid = Some ''company-001'', generated_job_id = Some ''JOB-2024-002'',
         total_amount = Some 180,
         work_done_description = Some [],
         job_notes = None, contact_first = None, contact_last = None,
         contact_phone = None, contact_email = None \<rparr>,
      \<lparr> uuid = Some ''job-003-uuid'',
         job_address = Some ''789 Collins Avenue, Brisbane QLD 4000'',
         job_description = Some ''Electrical Safety Inspection'',
         status = Some ''Work Order'', date = Some ''2024-11-28'', time = Some ''10:30'',
         company_uuid = Some ''company-001'', generated_job_id = Some ''JOB-2024-003'',
         total_amount = Some 320,
         work_done_description = Some [],
         job_notes = None, contact_first = None, contact_last = None,
         contact_phone = None, contact_email = None \<rparr>]"

definition getMockJobById :: "string \<Rightarrow> job option" where
  "getMockJobById jobId =
     (case find (\<lambda>j. uuid j = Some jobId) getMockJobs of
        None \<Rightarrow> None
      | Some j \<Rightarrow>
          Some (j\<lparr> job_notes := Some ''Customer prefers morning appointments. Gate code is 1234.'',
                   contact_first := Some ''John'',
                   contact_last := Some ''Smith'',
                   contact_phone := Some ''0400 123 456'',
                   contact_email := Some ''customer@example.com'' \<rparr>))"

definition getMockJobsByEmail :: "string \<Rightarrow> job list" where
  "getMockJobsByEmail emailStr =
     (if toLowerCase emailStr = ''customer@example.com'' then getMockJobs else [])"

text \<open>
  In both functions the call on a \<^verbatim>\<open>null\<close> client throws inside the \<^verbatim>\<open>try\<close> block, so a
  missing key takes the same \<^verbatim>\<open>catch\<close> branch as a failed request.
\<close>

definition getJobById :: "servicem8 \<Rightarrow> string \<Rightarrow> job option" where
  "getJobById env jobId =
     (case createApiClient env of
        None \<Rightarrow> getMockJobById jobId
      | Some client \<Rightarrow>
          (case job_by_id env jobId of
             None \<Rightarrow> getMockJobById jobId
           | Some data \<Rightarrow> Some data))"

definition getJobsByCustomerEmail :: "servicem8 \<Rightarrow> string \<Rightarrow> job list" where
  "getJobsByCustomerEmail env emailStr =
     (case createApiClient env of
        None \<Rightarrow> getMockJobsByEmail emailStr
      | Some client \<Rightarrow>
          (case job_json env of
             None \<Rightarrow> getMockJobsByEmail emailStr
           | Some jobs \<Rightarrow> jobs))"

section \<open>Bookings (routes/bookings.js)\<close>

text \<open>\<^verbatim>\<open>x || d\<close> on an optional string: the default replaces a missing or empty one.\<close>

definition or_default :: "string option \<Rightarrow> string \<Rightarrow> string" where
  "or_default x d = (case x of None \<Rightarrow> d | Some v \<Rightarrow> if v = [] then d else v)"

text \<open>\<^verbatim>\<open>x || null\<close>.\<close>

definition or_null :: "string option \<Rightarrow> string option" where
  "or_null x = (case x of None \<Rightarrow> None | Some v \<Rightarrow> if v = [] then None else Some v)"

text \<open>
  \<^verbatim>\<open>job.generated_job_id || `JOB-${job.uuid.slice(0, 8)}`\<close>; \<open>None\<close> is the exception of
  \<^verbatim>\<open>slice\<close> on a missing uuid.
\<close>

definition jobNumber_of :: "job \<Rightarrow> string option" where
  "jobNumber_of j =
     (let sliced = (case uuid j of None \<Rightarrow> None | Some u \<Rightarrow> Some (''JOB-'' @ take 8 u))
      in case generated_job_id j of
           None \<Rightarrow> sliced
         | Some g \<Rightarrow> if g = [] then sliced else Some g)"

record booking =
  bk_id :: "string option"
  jobNumber :: string
  address :: string
  description :: string
  bk_status :: string
  bk_date :: "string option"
  bk_time :: "string option"
  amount :: int

record booking_detail = booking +
  workDone :: string
  bk_notes :: string
  contact_firstName :: string
  contact_lastName :: string
  contact_phoneNumber :: string
  contact_emailAddress :: string

definition booking_of :: "job \<Rightarrow> booking option" where
  "booking_of j =
     (case jobNumber_of j of
        None \<Rightarrow> None
      | Some n \<Rightarrow>
          Some \<lparr> bk_id = uuid j, jobNumber = n,
                 address = or_default (job_address j) ''No address provided'',
                 description = or_default (job_description j) ''No description'',
                 bk_status = or_default (status j) ''Unknown'',
                 bk_date = or_null (date j), bk_time = or_null (time j),
                 amount = (case total_amount j of None \<Rightarrow> 0 | Some a \<Rightarrow> a) \<rparr>)"

definition booking_detail_of :: "job \<Rightarrow> booking_detail option" where
  "booking_detail_of j =
     (case jobNumber_of j of
        None \<Rightarrow> None
      | Some n \<Rightarrow>
          Some \<lparr> bk_id = uuid j, jobNumber = n,
                 address = or_default (job_address j) ''No address provided'',
                 description = or_default (job_description j) ''No description'',
                 bk_status = or_default (status j) ''Unknown'',
                 bk_date = or_null (date j), bk_time = or_null (time j),
                 amount = (case total_amount j of None \<Rightarrow> 0 | Some a \<Rightarrow> a),
                 workDone = or_default (work_done_description j) [],
                 bk_notes = or_default (job_notes j) [],
                 contact_firstName = or_default (contact_first j) [],
                 contact_lastName = or_default (contact_last j) [],
                 contact_phoneNumber = or_default (contact_phone j) [],
                 contact_emailAddress = or_default (contact_email j) [] \<rparr>)"

text \<open>\<^verbatim>\<open>GET /\<close>: the body \<^verbatim>\<open>{success: true, bookings, count}\<close>, or 500 when reshaping a job
  throws.\<close>

definition get_bookings :: "servicem8 \<Rightarrow> claims \<Rightarrow> (booking list \<times> nat) response" where
  "get_bookings env user =
     (let customerEmail = email user;
          jobs = getJobsByCustomerEmail env customerEmail
      in case those (map booking_of jobs) of
           None \<Rightarrow> Failure 500 ''Server Error'' ''Failed to fetch bookings''
         | Some bookings \<Rightarrow> Success 200 (bookings, length bookings))"

text \<open>\<^verbatim>\<open>GET /:id\<close>.\<close>

definition get_booking :: "servicem8 \<Rightarrow> claims \<Rightarrow> string \<Rightarrow> booking_detail response" where
  "get_booking env user jobId =
     (case getJobById env jobId of
        None \<Rightarrow> Failure 404 ''Not Found'' ''Booking not found''
      | Some j \<Rightarrow>
          (case booking_detail_of j of
             None \<Rightarrow> Failure 500 ''Server Error'' ''Failed to fetch booking details''
           | Some b \<Rightarrow> Success 200 b))"

text \<open>Whether the upstream system supplies the listing, or the job of a given id.\<close>

definition upstream_lists :: "servicem8 \<Rightarrow> bool" where
  "upstream_lists env = (createApiClient env \<noteq> None \<and> job_json env \<noteq> None)"

definition upstream_has :: "servicem8 \<Rightarrow> string \<Rightarrow> bool" where
  "upstream_has env jobId = (createApiClient env \<noteq> None \<and> job_by_id env jobId \<noteq> None)"

definition fallback_has :: "string \<Rightarrow> bool" where
  "fallback_has jobId = (Some jobId \<in> set (map uuid getMockJobs))"

section \<open>Sample data\<close>

definition john :: claims where
  "john = \<lparr> customerId = ''cust-001'', email = ''customer@example.com'',
            firstName = ''John'', lastName = ''Smith'', iat = 1000, expiresAt = 87400 \<rparr>"

definition jane :: claims where
  "jane = \<lparr> customerId = ''cust-002'', email = ''jane.doe@example.com'',
            firstName = ''Jane'', lastName = ''Doe'', iat = 2000, expiresAt = 88400 \<rparr>"

definition hello_msg :: message where
  "hello_msg = \<lparr> msg_id = ''id-1'', bookingId = ''job-001-uuid'', msg_customerId = ''cust-001'',
                 customerName = ''John Smith'', customerEmail = ''customer@example.com'',
                 content = ''Hello'', createdAt = 5000, isFromCustomer = True \<rparr>"

definition later_msg :: message where
  "later_msg = \<lparr> msg_id = ''id-2'', bookingId = ''job-001-uuid'', msg_customerId = ''cust-002'',
                 customerName = ''Jane Doe'', customerEmail = ''jane.doe@example.com'',
                 content = ''Any news?'', createdAt = 7000, isFromCustomer = True \<rparr>"

definition other_msg :: message where
  "other_msg = \<lparr> msg_id = ''id-3'', bookingId = ''job-002-uuid'', msg_customerId = ''cust-001'',
                 customerName = ''John Smith'', customerEmail = ''customer@example.com'',
                 content = ''Quote please'', createdAt = 6000, isFromCustomer = True \<rparr>"

text \<open>A wire format that knows one token, signed with the key \<open>k1\<close> for John's claims.\<close>

definition demo_decode :: "string \<Rightarrow> jwt option" where
  "demo_decode t = (if t = ''tok-john'' then Some (Jwt ''k1'' john) else None)"

text \<open>No API key configured; a configured key with the upstream system out of reach; and
  an upstream system that answers with one job of its own.\<close>

definition no_key :: servicem8 where
  "no_key = \<lparr> SERVICEM8_API_KEY = None, job_json = None, job_by_id = (\<lambda>_. None) \<rparr>"

definition upstream_job :: job where
  "upstream_job = \<lparr> uuid = Some ''up-77'', job_address = None, job_description = None,
                     status = Some ''Quote'', date = None, time = None, company_uuid = None,
                     generated_job_id = None, total_amount = None,
                     work_done_description = None, job_notes = None, contact_first = None,
                     contact_last = None, contact_phone = None, contact_email = None \<rparr>"

definition live :: servicem8 where
  "live = \<lparr> SERVICEM8_API_KEY = Some ''key'', job_json = Some [upstream_job],
            job_by_id = (\<lambda>i. if i = ''up-77'' then Some upstream_job else None) \<rparr>"

section \<open>Properties of the helpers\<close>

subsection \<open>Sorting\<close>

lemma mset_insert_by: "mset (insert_by cmp x xs) = add_mset x (mset xs)"
  by (induction xs) auto

lemma mset_sort_by: "mset (sort_by cmp xs) = mset xs"
  unfolding sort_by_def by (induction xs) (auto simp: mset_insert_by)

lemma set_sort_by: "set (sort_by cmp xs) = set xs"
  using mset_sort_by [of cmp xs] by (metis set_mset_mset)

lemma length_sort_by: "length (sort_by cmp xs) = length xs"
  using mset_sort_by [of cmp xs] by (metis size_mset)

lemma set_insert_by: "set (insert_by cmp x xs) = insert x (set xs)"
  by (induction xs) auto

lemma sorted_insert_by:
  "sorted_wrt newest_first_order xs \<Longrightarrow> sorted_wrt newest_first_order (insert_by newest_first x xs)"
  by (induction xs) (auto simp: set_insert_by newest_first_order_def newest_first_def)

lemma sorted_sort_by: "sorted_wrt newest_first_order (sort_by newest_first xs)"
  unfolding sort_by_def by (induction xs) (auto simp: sorted_insert_by)

subsection \<open>Splitting the Authorization header\<close>

lemma split_space_nonempty: "split_space h \<noteq> []"
  by (cases h) (auto split: list.splits)

lemma split_space_no_space: "CHR '' '' \<notin> set t \<Longrightarrow> split_space t = [t]"
  by (induction t) auto

lemma split_space_single: "split_space t = [p] \<Longrightarrow> p = t \<and> CHR '' '' \<notin> set t"
  by (induction t arbitrary: p) (auto simp: split_space_nonempty split: if_splits list.splits)

lemma split_space_two:
  "split_space h = [a, b] \<longleftrightarrow> h = a @ '' '' @ b \<and> CHR '' '' \<notin> set a \<and> CHR '' '' \<notin> set b"
proof (induction h arbitrary: a)
  case Nil
  show ?case by simp
next
  case (Cons c cs)
  show ?case
  proof (cases "c = CHR '' ''")
    case True
    have "split_space cs = [b] \<longleftrightarrow> CHR '' '' \<notin> set b \<and> cs = b"
      using split_space_single [of cs b] split_space_no_space [of cs] by blast
    with True show ?thesis
      by (cases a) auto
  next
    case False
    show ?thesis
    proof (cases a)
      assume "a = []"
      with False show ?thesis by (simp split: list.splits)
    next
      fix x xs assume a: "a = x # xs"
      have "split_space (c # cs) = [x # xs, b] \<longleftrightarrow> c = x \<and> split_space cs = [xs, b]"
        using False split_space_nonempty [of cs] by (simp split: list.splits)
      also have "\<dots> \<longleftrightarrow> c = x \<and> cs = xs @ '' '' @ b \<and> CHR '' '' \<notin> set xs \<and> CHR '' '' \<notin> set b"
        using Cons.IH [of xs] by simp
      finally show ?thesis using False a by auto
    qed
  qed
qed

lemma bearer_split: "bearer_shape h \<longleftrightarrow> split_space h = [''Bearer'', drop 7 h]"
proof
  assume b: "bearer_shape h"
  then have "take 7 h @ drop 7 h = ''Bearer '' @ drop 7 h"
    by (simp add: bearer_shape_def)
  then have "h = ''Bearer'' @ '' '' @ drop 7 h" by simp
  moreover from b have "CHR '' '' \<notin> set (drop 7 h)" by (simp add: bearer_shape_def)
  ultimately show "split_space h = [''Bearer'', drop 7 h]"
    using split_space_two [of h "''Bearer''" "drop 7 h"] by simp
next
  assume "split_space h = [''Bearer'', drop 7 h]"
  then have "h = ''Bearer'' @ '' '' @ drop 7 h \<and> CHR '' '' \<notin> set (drop 7 h)"
    using split_space_two [of h "''Bearer''" "drop 7 h"] by simp
  then have "take 7 h = take 7 (''Bearer '' @ drop 7 h)" "CHR '' '' \<notin> set (drop 7 h)"
    by simp_all
  then show "bearer_shape h" by (simp add: bearer_shape_def)
qed

lemma bearer_parts:
  "(length (split_space h) = 2 \<and> split_space h ! 0 = ''Bearer'') \<longleftrightarrow> bearer_shape h"
proof
  assume a: "length (split_space h) = 2 \<and> split_space h ! 0 = ''Bearer''"
  then obtain x y where xy: "split_space h = [x, y]"
    by (auto simp: length_Suc_conv numeral_2_eq_2)
  with a have x: "x = ''Bearer''" by simp
  with xy have "h = ''Bearer'' @ '' '' @ y" "CHR '' '' \<notin> set y"
    using split_space_two [of h x y] by simp_all
  then show "bearer_shape h"
    by (simp add: bearer_shape_def)
next
  assume "bearer_shape h"
  then show "length (split_space h) = 2 \<and> split_space h ! 0 = ''Bearer''"
    by (simp add: bearer_split)
qed

subsection \<open>Evaluations on the sample data\<close>

lemma trim_examples:
  "trim ''   '' = []" "trim '' Hello  '' = ''Hello''" "trim ''John Smith'' = ''John Smith''"
  by (simp_all add: trim_def isWhiteSpace_def)

lemma lower_examples:
  "toLowerCase ''customer@example.com'' = ''customer@example.com''"
  "toLowerCase ''jane.doe@example.com'' \<noteq> ''customer@example.com''"
  by (simp_all add: toLowerCase_def toLowerCase_char_def)

lemma normalize_examples:
  "normalizeEmail '' Customer@Example.COM '' = ''customer@example.com''"
  "normalizePhone ''(0400) 123-456'' = ''0400123456''"
  "normalizeEmail ''x@x.com'' = ''x@x.com''"
  "normalizePhone ''000'' = ''000''"
  "normalizeEmail ''customer@example.com'' = ''customer@example.com''"
  by code_simp+

section \<open>The message log\<close>

lemma readMessages_cases:
  "readMessages Missing = (Content [], Some [])"
  "readMessages (Content ms) = (Content ms, Some ms)"
  "readMessages Unparsable = (Unparsable, None)"
  by (simp_all add: readMessages_def ensureStorageExists_def)

lemma readMessages_stored:
  "f \<noteq> Unparsable \<Longrightarrow> readMessages f = (Content (stored f), Some (stored f))"
  by (cases f) (simp_all add: readMessages_cases stored_def)

lemma get_booking_messages_ok:
  "f \<noteq> Unparsable \<Longrightarrow>
   get_booking_messages f user bid =
     (Content (stored f),
      Success 200 (sort_by newest_first (filter (\<lambda>m. bookingId m = bid) (stored f)),
                   length (filter (\<lambda>m. bookingId m = bid) (stored f))))"
  by (simp add: get_booking_messages_def readMessages_stored length_sort_by)

lemma get_all_messages_ok:
  "f \<noteq> Unparsable \<Longrightarrow>
   get_all_messages f user =
     (Content (stored f),
      Success 200 (sort_by newest_first (filter (\<lambda>m. msg_customerId m = customerId user) (stored f)),
                   length (filter (\<lambda>m. msg_customerId m = customerId user) (stored f))))"
  by (simp add: get_all_messages_def readMessages_stored length_sort_by)

text \<open>
  What a successful append has done: the content was a string, not empty after trimming
  and of at most 2000 code units, the file was readable, and the file now holds the old
  records followed by the new one.
\<close>

lemma post_success:
  assumes "post_booking_message f mid now user bid c = (f', Success 201 m)"
  shows "\<exists>s. c = JStr s \<and> trim s \<noteq> [] \<and> length s \<le> 2000 \<and> f \<noteq> Unparsable \<and>
             f' = Content (stored f @ [m]) \<and>
             m = \<lparr> msg_id = mid, bookingId = bid, msg_customerId = customerId user,
                   customerName = customer_name user, customerEmail = email user,
                   content = trim s, createdAt = now, isFromCustomer = True \<rparr>"
proof (cases c)
  case (JStr s)
  show ?thesis
  proof (cases f)
    case Unparsable
    with assms JStr show ?thesis
      by (auto simp: post_booking_message_def readMessages_cases split: if_splits)
  next
    case Missing
    with assms JStr show ?thesis
      by (auto simp: post_booking_message_def readMessages_cases writeMessages_def stored_def
               Let_def split: if_splits)
  next
    case (Content ms)
    with assms JStr show ?thesis
      by (auto simp: post_booking_message_def readMessages_cases writeMessages_def stored_def
               Let_def split: if_splits)
  qed
qed (use assms in \<open>auto simp: post_booking_message_def\<close>)

lemma post_hello:
  "post_booking_message Missing ''id-1'' 5000 john ''job-001-uuid'' (JStr '' Hello  '') =
     (Content [hello_msg], Success 201 hello_msg)"
  by (simp add: post_booking_message_def readMessages_cases writeMessages_def customer_name_def
                trim_examples john_def hello_msg_def Let_def)

lemma trim_more:
  "trim ''Jane Doe'' = ''Jane Doe''" "trim ''Any news?'' = ''Any news?''"
  "trim ''Quote please'' = ''Quote please''"
  by (simp_all add: trim_def isWhiteSpace_def)

lemma post_other:
  "post_booking_message (Content [hello_msg]) ''id-3'' 6000 john ''job-002-uuid'' (JStr ''Quote please'') =
     (Content [hello_msg, other_msg], Success 201 other_msg)"
  by (simp add: post_booking_message_def readMessages_cases writeMessages_def customer_name_def
                trim_examples trim_more john_def other_msg_def Let_def)

lemma post_later:
  "post_booking_message (Content [hello_msg, other_msg]) ''id-2'' 7000 jane ''job-001-uuid'' (JStr ''Any news?'') =
     (Content [hello_msg, other_msg, later_msg], Success 201 later_msg)"
  by (simp add: post_booking_message_def readMessages_cases writeMessages_def customer_name_def
                trim_more jane_def later_msg_def Let_def)

lemma post_stored:
  "\<exists>new. stored (fst (post_booking_message f mid now user bid c)) = stored f @ new"
proof (cases "\<exists>m f'. post_booking_message f mid now user bid c = (f', Success 201 m)")
  case True
  then obtain m f' where p: "post_booking_message f mid now user bid c = (f', Success 201 m)"
    by blast
  from post_success [OF p] show ?thesis by (auto simp: p stored_def)
next
  case False
  have "fst (post_booking_message f mid now user bid c) = f \<or>
        fst (post_booking_message f mid now user bid c) = ensureStorageExists f \<or>
        (\<exists>m f'. post_booking_message f mid now user bid c = (f', Success 201 m))"
    by (cases c; cases f)
       (auto simp: post_booking_message_def readMessages_def ensureStorageExists_def Let_def)
  with False show ?thesis
    by (cases f) (auto simp: stored_def ensureStorageExists_def)
qed

lemma log_step_stored: "log_step f f' \<Longrightarrow> \<exists>new. stored f' = stored f @ new"
proof (induction rule: log_step.induct)
  case (listed f user bid)
  show ?case by (cases f) (simp_all add: get_booking_messages_def readMessages_cases stored_def Let_def)
next
  case (appended f mid now user bid c)
  show ?case by (rule post_stored)
next
  case (listed_all f user)
  show ?case by (cases f) (simp_all add: get_all_messages_def readMessages_cases stored_def Let_def)
qed

lemma log_steps_stored: "log_step\<^sup>*\<^sup>* f f' \<Longrightarrow> \<exists>new. stored f' = stored f @ new"
proof (induction rule: rtranclp_induct)
  case base
  show ?case by simp
next
  case (step y z)
  from step.IH obtain n1 where "stored y = stored f @ n1" by blast
  moreover from log_step_stored [OF step.hyps(2)] obtain n2 where "stored z = stored y @ n2" by blast
  ultimately show ?case by simp
qed

text \<open>
  Claim C2. A message whose content is empty after trimming, or longer than 2000
  characters, is refused with status 400 (the validation error), and the message file is
  left exactly as it was: the answer carries the file unchanged, and a missing file is not
  even created.
\<close>

theorem append_rejects_invalid_content:
  "length (trim s) = 0 \<or> length s > 2000 \<Longrightarrow>
   \<exists>msg. post_booking_message f mid now user bid (JStr s) = (f, Failure 400 ''Bad Request'' msg)"
  by (auto simp: post_booking_message_def)

theorem append_rejects_invalid_content_witness:
  "length (trim ''   '') = 0 \<and>
   (\<exists>msg. post_booking_message (Content [hello_msg]) ''id-9'' 9000 john ''job-001-uuid'' (JStr ''   '')
            = (Content [hello_msg], Failure 400 ''Bad Request'' msg)) \<and>
   length (replicate 2001 (CHR ''a'')) > 2000 \<and>
   (\<exists>msg. post_booking_message (Content [hello_msg]) ''id-9'' 9000 john ''job-001-uuid''
              (JStr (replicate 2001 (CHR ''a'')))
            = (Content [hello_msg], Failure 400 ''Bad Request'' msg))"
proof -
  have e: "length (trim ''   '') = 0" by (simp add: trim_examples)
  have l: "length (replicate 2001 (CHR ''a'')) > 2000" by simp
  from append_rejects_invalid_content [OF disjI1 [OF e]]
       append_rejects_invalid_content [OF disjI2 [OF l]] e l
  show ?thesis by blast
qed

text \<open>
  Claim C3. For every booking id and every state of the log (the file not yet created, or
  holding any list of messages), the listing for a booking answers 200 with exactly the
  stored messages of that booking, each as often as it is stored and no others, ordered by
  \<open>createdAt\<close> descending; the count is the length of the list.
\<close>

theorem listForBooking_exact_sorted:
  "f = Missing \<or> f = Content allMessages \<Longrightarrow>
   \<exists>ms. snd (get_booking_messages f user bid) = Success 200 (ms, length ms) \<and>
        mset ms = filter_mset (\<lambda>m. bookingId m = bid) (mset (stored f)) \<and>
        sorted_wrt newest_first_order ms"
proof -
  assume "f = Missing \<or> f = Content allMessages"
  then have "f \<noteq> Unparsable" by auto
  from get_booking_messages_ok [OF this, of user bid] show ?thesis
    by (simp add: mset_sort_by sorted_sort_by length_sort_by)
qed

theorem listForBooking_exact_sorted_witness:
  "get_booking_messages (Content [hello_msg, other_msg, later_msg]) jane ''job-001-uuid'' =
     (Content [hello_msg, other_msg, later_msg], Success 200 ([later_msg, hello_msg], 2)) \<and>
   (\<exists>ms. snd (get_booking_messages (Content [hello_msg, other_msg, later_msg]) jane ''job-001-uuid'')
            = Success 200 (ms, length ms) \<and>
         mset ms = filter_mset (\<lambda>m. bookingId m = ''job-001-uuid'')
                     (mset (stored (Content [hello_msg, other_msg, later_msg]))) \<and>
         sorted_wrt newest_first_order ms)"
proof -
  have "get_booking_messages (Content [hello_msg, other_msg, later_msg]) jane ''job-001-uuid'' =
     (Content [hello_msg, other_msg, later_msg], Success 200 ([later_msg, hello_msg], 2))"
    by (simp add: get_booking_messages_def readMessages_cases sort_by_def newest_first_def
                  hello_msg_def other_msg_def later_msg_def)
  with listForBooking_exact_sorted [OF disjI2 [OF refl], of "[hello_msg, other_msg, later_msg]" jane "''job-001-uuid''"]
  show ?thesis by blast
qed



text \<open>
  Claim C8. A successful append leaves the stored records as they were and adds exactly
  one record at the end; and along any sequence of requests to the three routes the
  records stored at the start remain, unchanged and in place, as a prefix of the stored
  records: no request updates or deletes a message.
\<close>

theorem append_only_log:
  "(post_booking_message f mid now user bid c = (f', Success 201 m) \<longrightarrow>
      stored f' = stored f @ [m]) \<and>
   (log_step\<^sup>*\<^sup>* f f'' \<longrightarrow> (\<exists>new. stored f'' = stored f @ new))"
  using post_success [of f mid now user bid c f' m] log_steps_stored [of f f'']
  by (auto simp: stored_def)

theorem append_only_log_witness:
  "post_booking_message (Content [hello_msg, other_msg]) ''id-2'' 7000 jane ''job-001-uuid'' (JStr ''Any news?'') =
     (Content [hello_msg, other_msg, later_msg], Success 201 later_msg) \<and>
   stored (Content [hello_msg, other_msg, later_msg]) = stored (Content [hello_msg, other_msg]) @ [later_msg] \<and>
   stored (Content [hello_msg, other_msg]) = [hello_msg, other_msg] \<and>
   log_step\<^sup>*\<^sup>* (Content [hello_msg]) (Content [hello_msg, other_msg, later_msg]) \<and>
   (\<exists>new. stored (Content [hello_msg, other_msg, later_msg]) = stored (Content [hello_msg]) @ new) \<and>
   stored (Content [hello_msg, other_msg, later_msg]) = stored (Content [hello_msg]) @ [other_msg, later_msg]"
proof -
  have "log_step (Content [hello_msg])
          (fst (post_booking_message (Content [hello_msg]) ''id-3'' 6000 john ''job-002-uuid'' (JStr ''Quote please'')))"
    by (rule log_step.appended)
  then have s1: "log_step (Content [hello_msg]) (Content [hello_msg, other_msg])"
    by (simp add: post_other)
  have "log_step (Content [hello_msg, other_msg])
          (fst (get_all_messages (Content [hello_msg, other_msg]) jane))"
    by (rule log_step.listed_all)
  then have s2: "log_step (Content [hello_msg, other_msg]) (Content [hello_msg, other_msg])"
    by (simp add: get_all_messages_ok stored_def)
  have "log_step (Content [hello_msg, other_msg])
          (fst (post_booking_message (Content [hello_msg, other_msg]) ''id-2'' 7000 jane ''job-001-uuid'' (JStr ''Any news?'')))"
    by (rule log_step.appended)
  then have s3: "log_step (Content [hello_msg, other_msg]) (Content [hello_msg, other_msg, later_msg])"
    by (simp add: post_later)
  from s1 s2 s3 have s: "log_step\<^sup>*\<^sup>* (Content [hello_msg]) (Content [hello_msg, other_msg, later_msg])"
    by (meson rtranclp.rtrancl_into_rtrancl rtranclp.rtrancl_refl)
  have e: "stored (Content [hello_msg, other_msg]) = [hello_msg, other_msg]"
          "stored (Content [hello_msg, other_msg, later_msg]) = stored (Content [hello_msg]) @ [other_msg, later_msg]"
    by (simp_all add: stored_def)
  from append_only_log [of "Content [hello_msg, other_msg]" "''id-2''" 7000 jane "''job-001-uuid''"
                           "JStr ''Any news?''" "Content [hello_msg, other_msg, later_msg]" later_msg]
       post_later
  have a: "stored (Content [hello_msg, other_msg, later_msg]) = stored (Content [hello_msg, other_msg]) @ [later_msg]"
    by blast
  from append_only_log [of "Content [hello_msg]" "''id-3''" 6000 john "''job-002-uuid''"
                           "JStr ''Quote please''" "Content [hello_msg, other_msg]" other_msg
                           "Content [hello_msg, other_msg, later_msg]"] s
  have b: "\<exists>new. stored (Content [hello_msg, other_msg, later_msg]) = stored (Content [hello_msg]) @ new"
    by blast
  from post_later a e s b show ?thesis by blast
qed

text \<open>
  Claim C9. The listing for a booking does not depend on the caller: any two sessions
  get the same answer, and every stored message of the booking is in the answer, whoever
  wrote it. The filter reads the booking id only.
\<close>

theorem booking_messages_caller_independent:
  "get_booking_messages f u1 bid = get_booking_messages f u2 bid \<and>
   (m \<in> set (stored f) \<and> bookingId m = bid \<longrightarrow>
      (\<exists>ms. snd (get_booking_messages f u1 bid) = Success 200 (ms, length ms) \<and> m \<in> set ms))"
proof -
  have "get_booking_messages f u1 bid = get_booking_messages f u2 bid"
    by (simp add: get_booking_messages_def)
  moreover have "\<exists>ms. snd (get_booking_messages f u1 bid) = Success 200 (ms, length ms) \<and> m \<in> set ms"
    if "m \<in> set (stored f)" "bookingId m = bid"
  proof -
    from that(1) have ok: "f \<noteq> Unparsable" by (auto simp: stored_def)
    show ?thesis using that
      by (simp add: get_booking_messages_ok [OF ok] set_sort_by length_sort_by)
  qed
  ultimately show ?thesis by blast
qed

theorem booking_messages_caller_independent_witness:
  "get_booking_messages (Content [hello_msg, other_msg, later_msg]) john ''job-001-uuid'' =
   get_booking_messages (Content [hello_msg, other_msg, later_msg]) jane ''job-001-uuid'' \<and>
   later_msg \<in> set (stored (Content [hello_msg, other_msg, later_msg])) \<and>
   bookingId later_msg = ''job-001-uuid'' \<and> msg_customerId later_msg \<noteq> customerId john \<and>
   (\<exists>ms. snd (get_booking_messages (Content [hello_msg, other_msg, later_msg]) john ''job-001-uuid'')
           = Success 200 (ms, length ms) \<and> later_msg \<in> set ms)"
proof -
  have a: "later_msg \<in> set (stored (Content [hello_msg, other_msg, later_msg]))"
    by (simp add: stored_def)
  have b: "bookingId later_msg = ''job-001-uuid''" "msg_customerId later_msg \<noteq> customerId john"
    by (simp_all add: later_msg_def john_def)
  from booking_messages_caller_independent
         [of "Content [hello_msg, other_msg, later_msg]" john "''job-001-uuid''" jane later_msg] a b
  show ?thesis by blast
qed

text \<open>
  Claim C10. The record stored and returned by a successful append has as content the
  submitted string trimmed; the limit of 2000 is checked on the submitted string as it
  came, so a string longer than 2000 is refused even when its trimmed form is short.
\<close>

theorem stored_content_trimmed:
  "(post_booking_message f mid now user bid (JStr s) = (f', Success 201 m) \<longrightarrow>
      content m = trim s \<and> last (stored f') = m \<and> length s \<le> 2000) \<and>
   (length s > 2000 \<longrightarrow>
      (\<exists>msg. post_booking_message f mid now user bid (JStr s) = (f, Failure 400 ''Bad Request'' msg)))"
proof -
  have "content m = trim s \<and> last (stored f') = m \<and> length s \<le> 2000"
    if p: "post_booking_message f mid now user bid (JStr s) = (f', Success 201 m)"
    using post_success [OF p] by (auto simp: stored_def)
  moreover have "\<exists>msg. post_booking_message f mid now user bid (JStr s) = (f, Failure 400 ''Bad Request'' msg)"
    if "length s > 2000"
    using that by (auto simp: post_booking_message_def)
  ultimately show ?thesis by blast
qed

theorem stored_content_trimmed_witness:
  "post_booking_message Missing ''id-1'' 5000 john ''job-001-uuid'' (JStr '' Hello  '') =
     (Content [hello_msg], Success 201 hello_msg) \<and>
   content hello_msg = trim '' Hello  '' \<and> last (stored (Content [hello_msg])) = hello_msg \<and>
   length '' Hello  '' \<le> 2000 \<and>
   length (CHR ''a'' # replicate 2000 (CHR '' '')) > 2000 \<and>
   length (trim (CHR ''a'' # replicate 2000 (CHR '' ''))) = 1 \<and>
   (\<exists>msg. post_booking_message Missing ''id-1'' 5000 john ''job-001-uuid''
             (JStr (CHR ''a'' # replicate 2000 (CHR '' '')))
           = (Missing, Failure 400 ''Bad Request'' msg))"
proof -
  have l: "length (CHR ''a'' # replicate 2000 (CHR '' '')) > 2000" by simp
  have "dropWhile isWhiteSpace (replicate 2000 (CHR '' '') @ ''a'') = ''a''"
    by (subst dropWhile_append2) (simp_all add: isWhiteSpace_def)
  then have t: "length (trim (CHR ''a'' # replicate 2000 (CHR '' ''))) = 1"
    by (simp add: trim_def isWhiteSpace_def)
  from stored_content_trimmed [of Missing "''id-1''" 5000 john "''job-001-uuid''" "'' Hello  ''"
                                  "Content [hello_msg]" hello_msg]
       stored_content_trimmed [of Missing "''id-1''" 5000 john "''job-001-uuid''"
                                  "CHR ''a'' # replicate 2000 (CHR '' '')"]
       post_hello l t
  show ?thesis by blast
qed

section \<open>Sessions\<close>

lemma verifyToken_bearer:
  "bearer_shape h \<Longrightarrow>
   verifyToken decode secret now (Some h) =
     (case jwt_verify decode (drop 7 h) secret now of
        Inr decoded \<Rightarrow> Next decoded
      | Inl TokenExpiredError \<Rightarrow> Denied 401 ''Unauthorized'' ''Token has expired''
      | Inl JsonWebTokenError \<Rightarrow> Denied 401 ''Unauthorized'' ''Invalid token'')"
proof -
  assume b: "bearer_shape h"
  then have "h \<noteq> []" by (auto simp: bearer_shape_def)
  moreover from b have "split_space h = [''Bearer'', drop 7 h]"
    by (simp add: bearer_split)
  ultimately show ?thesis
    by (simp add: verifyToken_def)
qed

lemma verifyToken_not_bearer:
  "\<not> bearer_shape h \<Longrightarrow> \<exists>msg. verifyToken decode secret now (Some h) = Denied 401 ''Unauthorized'' msg"
  using bearer_parts [of h] by (auto simp: verifyToken_def Let_def)

lemma jwt_verify_Inr:
  "jwt_verify decode t secret now = Inr c \<longleftrightarrow>
     t \<noteq> [] \<and> decode t = Some (Jwt secret c) \<and> now < expiresAt c"
  by (auto simp: jwt_verify_def split: option.splits jwt.splits if_splits)

text \<open>
  Claim C5. The middleware answers 401 Unauthorized exactly when the header is missing or
  empty, is not of the shape \<^verbatim>\<open>Bearer <token>\<close> (two pieces separated by one space, the first
  being \<^verbatim>\<open>Bearer\<close>), carries an empty token, carries a token without a valid signature
  under the server's secret, or carries a token whose expiry instant is now or in the past.
  On every other input it passes the request on with the claims embedded in the token.
\<close>

theorem verifyToken_unauthorized_iff:
  "((\<exists>msg. verifyToken decode secret now authHeader = Denied 401 ''Unauthorized'' msg) \<longleftrightarrow>
      (case authHeader of
         None \<Rightarrow> True
       | Some h \<Rightarrow> h = [] \<or> \<not> bearer_shape h \<or> drop 7 h = [] \<or>
                   \<not> signature_valid decode secret (drop 7 h) \<or>
                   token_expired decode now (drop 7 h))) \<and>
   ((\<forall>msg. verifyToken decode secret now authHeader \<noteq> Denied 401 ''Unauthorized'' msg) \<longrightarrow>
      (\<exists>h c. authHeader = Some h \<and> decode (drop 7 h) = Some (Jwt secret c) \<and>
             verifyToken decode secret now authHeader = Next c))"
proof (cases authHeader)
  case None
  then show ?thesis by (simp add: verifyToken_def)
next
  case (Some h)
  show ?thesis
  proof (cases "bearer_shape h")
    case False
    with Some verifyToken_not_bearer [OF False, of decode secret now] show ?thesis
      by auto
  next
    case True
    have ne: "h \<noteq> []" using True by (auto simp: bearer_shape_def)
    show ?thesis
    proof (cases "jwt_verify decode (drop 7 h) secret now")
      case (Inr c)
      then have "drop 7 h \<noteq> []" "decode (drop 7 h) = Some (Jwt secret c)" "now < expiresAt c"
        by (simp_all add: jwt_verify_Inr)
      with Some True ne Inr show ?thesis
        by (simp add: verifyToken_bearer signature_valid_def token_expired_def)
    next
      case (Inl e)
      then have "drop 7 h = [] \<or> \<not> signature_valid decode secret (drop 7 h) \<or>
                 token_expired decode now (drop 7 h)"
        by (auto simp: jwt_verify_def signature_valid_def token_expired_def
                 split: option.splits jwt.splits if_splits)
      with Some True Inl show ?thesis
        by (cases e) (auto simp: verifyToken_bearer)
    qed
  qed
qed

theorem verifyToken_unauthorized_iff_witness:
  "(\<exists>msg. verifyToken demo_decode ''k1'' 87400 (Some ''Bearer tok-john'')
            = Denied 401 ''Unauthorized'' msg) \<and>
   bearer_shape ''Bearer tok-john'' \<and> signature_valid demo_decode ''k1'' ''tok-john'' \<and>
   token_expired demo_decode 87400 ''tok-john'' \<and>
   (\<exists>h c. Some ''Bearer tok-john'' = Some h \<and> demo_decode (drop 7 h) = Some (Jwt ''k1'' c) \<and>
          verifyToken demo_decode ''k1'' 87399 (Some ''Bearer tok-john'') = Next c) \<and>
   verifyToken demo_decode ''k1'' 87399 (Some ''Bearer tok-john'') = Next john"
proof -
  have b: "bearer_shape ''Bearer tok-john''" by (simp add: bearer_shape_def)
  have s: "signature_valid demo_decode ''k1'' ''tok-john''"
    by (simp add: signature_valid_def demo_decode_def)
  have e: "token_expired demo_decode 87400 ''tok-john''"
          "\<not> token_expired demo_decode 87399 ''tok-john''"
    by (simp_all add: token_expired_def demo_decode_def john_def)
  have d: "drop 7 ''Bearer tok-john'' = ''tok-john''" by simp
  have v: "verifyToken demo_decode ''k1'' 87399 (Some ''Bearer tok-john'') = Next john"
    by (simp add: verifyToken_def jwt_verify_def demo_decode_def john_def)
  from verifyToken_unauthorized_iff [of demo_decode "''k1''" 87400 "Some ''Bearer tok-john''"]
       verifyToken_unauthorized_iff [of demo_decode "''k1''" 87399 "Some ''Bearer tok-john''"]
       b s e d v
  show ?thesis by simp
qed

lemma mock_emails_lower: "c \<in> set mockCustomers \<Longrightarrow> toLowerCase (cust_email c) = cust_email c"
  by (auto simp: mockCustomers_def toLowerCase_def toLowerCase_char_def)

lemma find_mock_Some:
  assumes "c \<in> set mockCustomers" "cust_email c = e" "cust_phone c = p"
  shows "find (\<lambda>c. toLowerCase (cust_email c) = e \<and> cust_phone c = p) mockCustomers = Some c"
proof -
  have l: "toLowerCase ''customer@example.com'' = ''customer@example.com''"
          "toLowerCase ''jane.doe@example.com'' = ''jane.doe@example.com''"
    by (simp_all add: toLowerCase_def toLowerCase_char_def)
  from assms show ?thesis
    by (auto simp: mockCustomers_def l)
qed

lemma find_mock_None:
  assumes "\<not> (\<exists>c \<in> set mockCustomers. cust_email c = e \<and> cust_phone c = p)"
  shows "find (\<lambda>c. toLowerCase (cust_email c) = e \<and> cust_phone c = p) mockCustomers = None"
proof -
  have "\<not> (\<exists>c \<in> set mockCustomers. toLowerCase (cust_email c) = e \<and> cust_phone c = p)"
    using assms mock_emails_lower by auto
  then show ?thesis by (simp add: find_None_iff)
qed

text \<open>
  Claim C1. For every pair of submitted strings whose normal forms (email lowercased and
  trimmed; phone without white space, dashes and parentheses) are the stored email and
  phone of a customer of the credential store, login answers 200 with a token signed with
  the server's secret whose claims are that customer's id, email, first name and last
  name, expiring 24 hours after issue. For every pair of non-empty strings that matches no
  customer it answers 401 Unauthorized with one fixed body, whichever field was wrong.
\<close>

theorem login_correct:
  "(c \<in> set mockCustomers \<and> matches emailStr phoneStr c \<longrightarrow>
      (\<exists>token. login secret now (JStr emailStr) (JStr phoneStr) = Success 200 (token, tokenPayload c) \<and>
         signing_key token = secret \<and>
         customerId (payload token) = cust_id c \<and> email (payload token) = cust_email c \<and>
         firstName (payload token) = cust_firstName c \<and> lastName (payload token) = cust_lastName c \<and>
         expiresAt (payload token) = now + 86400)) \<and>
   (emailStr \<noteq> [] \<and> phoneStr \<noteq> [] \<and> \<not> (\<exists>c \<in> set mockCustomers. matches emailStr phoneStr c) \<longrightarrow>
      login secret now (JStr emailStr) (JStr phoneStr) =
        Failure 401 ''Unauthorized'' ''Invalid email or phone number'')"
proof (intro conjI impI)
  assume a: "c \<in> set mockCustomers \<and> matches emailStr phoneStr c"
  then have m: "cust_email c = normalizeEmail emailStr" "cust_phone c = normalizePhone phoneStr"
    by (simp_all add: matches_def)
  from a have "cust_email c \<noteq> []" "cust_phone c \<noteq> []" by (auto simp: mockCustomers_def)
  with m have ne: "emailStr \<noteq> []" "phoneStr \<noteq> []"
    by (auto simp: normalizeEmail_def normalizePhone_def trim_def toLowerCase_def)
  from a m have "find (\<lambda>c. toLowerCase (cust_email c) = normalizeEmail emailStr \<and>
                         cust_phone c = normalizePhone phoneStr) mockCustomers = Some c"
    by (intro find_mock_Some) simp_all
  with ne show "\<exists>token. login secret now (JStr emailStr) (JStr phoneStr) = Success 200 (token, tokenPayload c) \<and>
         signing_key token = secret \<and>
         customerId (payload token) = cust_id c \<and> email (payload token) = cust_email c \<and>
         firstName (payload token) = cust_firstName c \<and> lastName (payload token) = cust_lastName c \<and>
         expiresAt (payload token) = now + 86400"
    by (simp add: login_def jwt_sign_def tokenPayload_def TOKEN_EXPIRY_def)
next
  assume a: "emailStr \<noteq> [] \<and> phoneStr \<noteq> [] \<and> \<not> (\<exists>c \<in> set mockCustomers. matches emailStr phoneStr c)"
  then have "find (\<lambda>c. toLowerCase (cust_email c) = normalizeEmail emailStr \<and>
                         cust_phone c = normalizePhone phoneStr) mockCustomers = None"
    by (intro find_mock_None) (auto simp: matches_def)
  with a show "login secret now (JStr emailStr) (JStr phoneStr) =
        Failure 401 ''Unauthorized'' ''Invalid email or phone number''"
    by (simp add: login_def)
qed

theorem login_correct_witness:
  "mockCustomers ! 0 \<in> set mockCustomers \<and>
   matches '' Customer@Example.COM '' ''(0400) 123-456'' (mockCustomers ! 0) \<and>
   (\<exists>token. login ''s3cret'' 1000 (JStr '' Customer@Example.COM '') (JStr ''(0400) 123-456'')
               = Success 200 (token, tokenPayload (mockCustomers ! 0)) \<and>
            signing_key token = ''s3cret'' \<and>
            customerId (payload token) = ''cust-001'' \<and>
            email (payload token) = ''customer@example.com'' \<and>
            firstName (payload token) = ''John'' \<and> lastName (payload token) = ''Smith'' \<and>
            expiresAt (payload token) = 87400) \<and>
   login ''s3cret'' 1000 (JStr ''x@x.com'') (JStr ''000'')
     = Failure 401 ''Unauthorized'' ''Invalid email or phone number'' \<and>
   login ''s3cret'' 1000 (JStr ''customer@example.com'') (JStr ''000'')
     = Failure 401 ''Unauthorized'' ''Invalid email or phone number''"
proof -
  have c: "mockCustomers ! 0 \<in> set mockCustomers" by (simp add: mockCustomers_def)
  have f: "cust_id (mockCustomers ! 0) = ''cust-001''"
          "cust_email (mockCustomers ! 0) = ''customer@example.com''"
          "cust_phone (mockCustomers ! 0) = ''0400123456''"
          "cust_firstName (mockCustomers ! 0) = ''John''"
          "cust_lastName (mockCustomers ! 0) = ''Smith''"
    by (simp_all add: mockCustomers_def)
  have m: "matches '' Customer@Example.COM '' ''(0400) 123-456'' (mockCustomers ! 0)"
    by (simp add: matches_def normalize_examples f)
  have n1: "\<not> (\<exists>c \<in> set mockCustomers. matches ''x@x.com'' ''000'' c)"
    by (simp add: matches_def normalize_examples mockCustomers_def)
  have n2: "\<not> (\<exists>c \<in> set mockCustomers. matches ''customer@example.com'' ''000'' c)"
    by (simp add: matches_def normalize_examples mockCustomers_def)
  from login_correct [of "mockCustomers ! 0" "'' Customer@Example.COM ''" "''(0400) 123-456''" "''s3cret''" 1000]
       login_correct [of "mockCustomers ! 0" "''x@x.com''" "''000''" "''s3cret''" 1000]
       login_correct [of "mockCustomers ! 0" "''customer@example.com''" "''000''" "''s3cret''" 1000]
       c m n1 n2 f
  show ?thesis by simp
qed

text \<open>
  The fields of the claim are strings. A truthy field of another JSON type is not
  normalised at all: the handler answers 500.
\<close>

lemma login_non_string:
  "login secret now (JNum 400123456) (JStr ''customer@example.com'')
     = Failure 500 ''Server Error'' ''An error occurred during login''"
  by (simp add: login_def)

section \<open>Bookings\<close>

lemma mock_bookings:
  "\<exists>bs. those (map booking_of getMockJobs) = Some bs \<and> length bs = 3 \<and>
        map bk_id bs = map uuid getMockJobs"
  by (simp add: getMockJobs_def booking_of_def jobNumber_of_def)

lemma fallback_jobs:
  "\<not> upstream_lists env \<Longrightarrow> getJobsByCustomerEmail env e = getMockJobsByEmail e"
  by (auto simp: upstream_lists_def getJobsByCustomerEmail_def split: option.splits)

lemma upstream_jobs:
  "upstream_lists env \<Longrightarrow> getJobsByCustomerEmail env e = the (job_json env)"
  by (auto simp: upstream_lists_def getJobsByCustomerEmail_def split: option.splits)

text \<open>
  The booking list is not the same for every session: without an API key the fallback
  data goes to John, whose email is the demo address, and Jane gets an empty list.
\<close>

theorem bookings_differ_counterexample:
  "get_bookings no_key john \<noteq> get_bookings no_key jane"
proof -
  have n: "\<not> upstream_lists no_key" by (simp add: upstream_lists_def no_key_def createApiClient_def)
  have "get_bookings no_key jane = Success 200 ([], 0)"
    by (simp add: get_bookings_def fallback_jobs [OF n] getMockJobsByEmail_def jane_def lower_examples)
  moreover from mock_bookings obtain bs where
    "those (map booking_of getMockJobs) = Some bs" "length bs = 3" by blast
  then have "get_bookings no_key john = Success 200 (bs, 3)"
    by (simp add: get_bookings_def fallback_jobs [OF n] getMockJobsByEmail_def john_def lower_examples)
  ultimately show ?thesis by simp
qed

text \<open>
  Claim C6, amended. When the upstream listing succeeds, every session gets the same
  booking list: the email does not restrict it. When there is no API key or the upstream
  request fails, the email decides: a session whose email lowercases to
  \<^verbatim>\<open>customer@example.com\<close> gets the three fallback jobs, every other session gets an empty
  list.
\<close>

theorem bookings_by_session:
  "(upstream_lists env \<longrightarrow> get_bookings env u1 = get_bookings env u2) \<and>
   (\<not> upstream_lists env \<and> toLowerCase (email u1) = ''customer@example.com'' \<longrightarrow>
      getJobsByCustomerEmail env (email u1) = getMockJobs \<and>
      (\<exists>bs. get_bookings env u1 = Success 200 (bs, 3) \<and> map bk_id bs = map uuid getMockJobs)) \<and>
   (\<not> upstream_lists env \<and> toLowerCase (email u1) \<noteq> ''customer@example.com'' \<longrightarrow>
      getJobsByCustomerEmail env (email u1) = [] \<and>
      get_bookings env u1 = Success 200 ([], 0))"
proof -
  have one: "get_bookings env u1 = get_bookings env u2" if "upstream_lists env"
    using that by (simp add: get_bookings_def upstream_jobs)
  have two: "getJobsByCustomerEmail env (email u1) = getMockJobs \<and>
      (\<exists>bs. get_bookings env u1 = Success 200 (bs, 3) \<and> map bk_id bs = map uuid getMockJobs)"
    if a: "\<not> upstream_lists env \<and> toLowerCase (email u1) = ''customer@example.com''"
  proof -
    from a have j: "getJobsByCustomerEmail env (email u1) = getMockJobs"
      by (simp add: fallback_jobs getMockJobsByEmail_def)
    from mock_bookings obtain bs where
      "those (map booking_of getMockJobs) = Some bs" "length bs = 3"
      "map bk_id bs = map uuid getMockJobs" by blast
    then have "get_bookings env u1 = Success 200 (bs, 3) \<and> map bk_id bs = map uuid getMockJobs"
      by (simp add: get_bookings_def j)
    with j show ?thesis by blast
  qed
  have three: "getJobsByCustomerEmail env (email u1) = [] \<and> get_bookings env u1 = Success 200 ([], 0)"
    if a: "\<not> upstream_lists env \<and> toLowerCase (email u1) \<noteq> ''customer@example.com''"
  proof -
    from a have j: "getJobsByCustomerEmail env (email u1) = []"
      by (simp add: fallback_jobs getMockJobsByEmail_def)
    then show ?thesis by (simp add: get_bookings_def)
  qed
  from one two three show ?thesis by blast
qed

theorem bookings_by_session_witness:
  "upstream_lists live \<and> get_bookings live john = get_bookings live jane \<and>
   toLowerCase (email john) = ''customer@example.com'' \<and>
   getJobsByCustomerEmail no_key (email john) = getMockJobs \<and>
   (\<exists>bs. get_bookings no_key john = Success 200 (bs, 3) \<and> map bk_id bs = map uuid getMockJobs) \<and>
   toLowerCase (email jane) \<noteq> ''customer@example.com'' \<and>
   getJobsByCustomerEmail no_key (email jane) = [] \<and>
   get_bookings no_key jane = Success 200 ([], 0)"
proof -
  have l: "upstream_lists live" by (simp add: upstream_lists_def live_def createApiClient_def)
  have n: "\<not> upstream_lists no_key" by (simp add: upstream_lists_def no_key_def createApiClient_def)
  have e: "toLowerCase (email john) = ''customer@example.com''"
          "toLowerCase (email jane) \<noteq> ''customer@example.com''"
    by (simp_all add: john_def jane_def lower_examples)
  from bookings_by_session [of live john jane] l
  have a: "get_bookings live john = get_bookings live jane" by blast
  from bookings_by_session [of no_key john] n e(1)
  have b: "getJobsByCustomerEmail no_key (email john) = getMockJobs \<and>
      (\<exists>bs. get_bookings no_key john = Success 200 (bs, 3) \<and> map bk_id bs = map uuid getMockJobs)"
    by blast
  from bookings_by_session [of no_key jane] n e(2)
  have c: "getJobsByCustomerEmail no_key (email jane) = [] \<and>
      get_bookings no_key jane = Success 200 ([], 0)"
    by blast
  from l a e b c show ?thesis by blast
qed

lemma getJobById_fallback:
  "\<not> upstream_has env jobId \<Longrightarrow> getJobById env jobId = getMockJobById jobId"
  by (auto simp: upstream_has_def getJobById_def split: option.splits)

lemma getMockJobById_None: "\<not> fallback_has jobId \<Longrightarrow> getMockJobById jobId = None"
proof -
  assume "\<not> fallback_has jobId"
  then have "find (\<lambda>j. uuid j = Some jobId) getMockJobs = None"
    by (force simp: fallback_has_def find_None_iff)
  then show ?thesis by (simp add: getMockJobById_def)
qed

lemma mock_uuids_distinct: "distinct (map uuid getMockJobs)"
  by (simp add: getMockJobs_def)

lemma getMockJobById_Some:
  "fallback_has jobId \<Longrightarrow>
   \<exists>j0 j b. j0 \<in> set getMockJobs \<and> uuid j0 = Some jobId \<and>
     getMockJobById jobId = Some j \<and>
     j = j0\<lparr> job_notes := Some ''Customer prefers morning appointments. Gate code is 1234.'',
              contact_first := Some ''John'', contact_last := Some ''Smith'',
              contact_phone := Some ''0400 123 456'',
              contact_email := Some ''customer@example.com'' \<rparr> \<and>
     uuid j = Some jobId \<and>
     booking_detail_of j = Some b \<and>
     bk_id b = Some jobId \<and>
     Some (jobNumber b) = generated_job_id j0 \<and>
     Some (address b) = job_address j0 \<and>
     Some (description b) = job_description j0 \<and>
     Some (bk_status b) = status j0 \<and>
     bk_date b = date j0 \<and> bk_time b = time j0 \<and>
     Some (amount b) = total_amount j0 \<and>
     Some (workDone b) = work_done_description j0 \<and>
     bk_notes b = ''Customer prefers morning appointments. Gate code is 1234.'' \<and>
     contact_firstName b = ''John'' \<and> contact_lastName b = ''Smith'' \<and>
     contact_phoneNumber b = ''0400 123 456'' \<and>
     contact_emailAddress b = ''customer@example.com''"
proof -
  assume "fallback_has jobId"
  then consider "jobId = ''job-001-uuid''" | "jobId = ''job-002-uuid''" | "jobId = ''job-003-uuid''"
    by (auto simp: fallback_has_def getMockJobs_def)
  then show ?thesis
  proof cases
    case 1
    show ?thesis
      by (rule exI [of _ "getMockJobs ! 0"])
         (simp add: 1 getMockJobById_def getMockJobs_def booking_detail_of_def jobNumber_of_def
                    or_default_def or_null_def)
  next
    case 2
    show ?thesis
      by (rule exI [of _ "getMockJobs ! 1"])
         (simp add: 2 getMockJobById_def getMockJobs_def booking_detail_of_def jobNumber_of_def
                    or_default_def or_null_def)
  next
    case 3
    show ?thesis
      by (rule exI [of _ "getMockJobs ! 2"])
         (simp add: 3 getMockJobById_def getMockJobs_def booking_detail_of_def jobNumber_of_def
                    or_default_def or_null_def)
  qed
qed

lemma fallback_job_2:
  "getMockJobs ! 1 \<in> set getMockJobs"
  "uuid (getMockJobs ! 1) = Some ''job-002-uuid''"
  "getJobById live ''job-002-uuid'' =
     Some \<lparr> uuid = Some ''job-002-uuid'',
            job_address = Some ''456 George Street, Melbourne VIC 3000'',
            job_description = Some ''Emergency Plumbing Repair'',
            status = Some ''Quote'', date = Some ''2024-11-25'', time = Some ''14:00'',
            company_uuid = Some ''company-001'', generated_job_id = Some ''JOB-2024-002'',
            total_amount = Some 180, work_done_description = Some [],
            job_notes = Some ''Customer prefers morning appointments. Gate code is 1234.'',
            contact_first = Some ''John'', contact_last = Some ''Smith'',
            contact_phone = Some ''0400 123 456'',
            contact_email = Some ''customer@example.com'' \<rparr>"
  "get_booking live john ''job-002-uuid'' =
     Success 200 \<lparr> bk_id = Some ''job-002-uuid'', jobNumber = ''JOB-2024-002'',
                    address = ''456 George Street, Melbourne VIC 3000'',
                    description = ''Emergency Plumbing Repair'', bk_status = ''Quote'',
                    bk_date = Some ''2024-11-25'', bk_time = Some ''14:00'', amount = 180,
                    workDone = [],
                    bk_notes = ''Customer prefers morning appointments. Gate code is 1234.'',
                    contact_firstName = ''John'', contact_lastName = ''Smith'',
                    contact_phoneNumber = ''0400 123 456'',
                    contact_emailAddress = ''customer@example.com'' \<rparr>"
  by (simp_all add: get_booking_def getJobById_def live_def createApiClient_def getMockJobById_def
                    getMockJobs_def booking_detail_of_def jobNumber_of_def or_default_def
                    or_null_def)

text \<open>
  Claim C7. For a booking id that neither the upstream system supplies nor the fallback
  data holds, \<open>getJobById\<close> returns null and the route answers 404 with the error kind
  \<^verbatim>\<open>Not Found\<close>. For an id of the fallback data, when the upstream system does not
  supply it, the job returned is the entry of the fallback data with that uuid (there is
  one, the uuids being distinct), with the notes and contact fields added, and the route
  answers 200 with the booking reshaped from that very entry: its id, number, address,
  description, status, date, time, amount, work done, notes and contact.
\<close>

theorem booking_not_found:
  "(\<not> upstream_has env jobId \<and> \<not> fallback_has jobId \<longrightarrow>
      getJobById env jobId = None \<and>
      get_booking env user jobId = Failure 404 ''Not Found'' ''Booking not found'') \<and>
   (\<not> upstream_has env jobId \<and> fallback_has jobId \<longrightarrow>
      (\<exists>j0 j b. j0 \<in> set getMockJobs \<and> uuid j0 = Some jobId \<and>
         getJobById env jobId = Some j \<and>
         j = j0\<lparr> job_notes := Some ''Customer prefers morning appointments. Gate code is 1234.'',
                  contact_first := Some ''John'', contact_last := Some ''Smith'',
                  contact_phone := Some ''0400 123 456'',
                  contact_email := Some ''customer@example.com'' \<rparr> \<and>
         uuid j = Some jobId \<and>
         get_booking env user jobId = Success 200 b \<and>
         bk_id b = Some jobId \<and>
         Some (jobNumber b) = generated_job_id j0 \<and>
         Some (address b) = job_address j0 \<and>
         Some (description b) = job_description j0 \<and>
         Some (bk_status b) = status j0 \<and>
         bk_date b = date j0 \<and> bk_time b = time j0 \<and>
         Some (amount b) = total_amount j0 \<and>
         Some (workDone b) = work_done_description j0 \<and>
         bk_notes b = ''Customer prefers morning appointments. Gate code is 1234.'' \<and>
         contact_firstName b = ''John'' \<and> contact_lastName b = ''Smith'' \<and>
         contact_phoneNumber b = ''0400 123 456'' \<and>
         contact_emailAddress b = ''customer@example.com''))"
proof -
  have one: "getJobById env jobId = None \<and>
      get_booking env user jobId = Failure 404 ''Not Found'' ''Booking not found''"
    if a: "\<not> upstream_has env jobId \<and> \<not> fallback_has jobId"
  proof -
    from a have "getJobById env jobId = None"
      by (simp add: getJobById_fallback getMockJobById_None)
    then show ?thesis by (simp add: get_booking_def)
  qed
  have two: ?thesis if a: "\<not> upstream_has env jobId \<and> fallback_has jobId"
  proof -
    from a have g: "getJobById env jobId = getMockJobById jobId"
      by (simp add: getJobById_fallback)
    have r: "get_booking env user jobId = Success 200 b"
      if "getMockJobById jobId = Some j" "booking_detail_of j = Some b" for j b
      using that by (simp add: get_booking_def g)
    from a have "fallback_has jobId" by simp
    from getMockJobById_Some [OF this] a show ?thesis
      unfolding g using r by blast
  qed
  from one two show ?thesis by blast
qed

theorem booking_not_found_witness:
  "\<not> upstream_has no_key ''job-999'' \<and> \<not> fallback_has ''job-999'' \<and>
   getJobById no_key ''job-999'' = None \<and>
   get_booking no_key john ''job-999'' = Failure 404 ''Not Found'' ''Booking not found'' \<and>
   \<not> upstream_has live ''job-002-uuid'' \<and> fallback_has ''job-002-uuid'' \<and>
   (\<exists>j0 j b. j0 \<in> set getMockJobs \<and> uuid j0 = Some ''job-002-uuid'' \<and>
      getJobById live ''job-002-uuid'' = Some j \<and>
      j = j0\<lparr> job_notes := Some ''Customer prefers morning appointments. Gate code is 1234.'',
               contact_first := Some ''John'', contact_last := Some ''Smith'',
               contact_phone := Some ''0400 123 456'',
               contact_email := Some ''customer@example.com'' \<rparr> \<and>
      get_booking live john ''job-002-uuid'' = Success 200 b \<and>
      Some (address b) = job_address j0 \<and> Some (description b) = job_description j0) \<and>
   get_booking live john ''job-002-uuid'' =
     Success 200 \<lparr> bk_id = Some ''job-002-uuid'', jobNumber = ''JOB-2024-002'',
                    address = ''456 George Street, Melbourne VIC 3000'',
                    description = ''Emergency Plumbing Repair'', bk_status = ''Quote'',
                    bk_date = Some ''2024-11-25'', bk_time = Some ''14:00'', amount = 180,
                    workDone = [],
                    bk_notes = ''Customer prefers morning appointments. Gate code is 1234.'',
                    contact_firstName = ''John'', contact_lastName = ''Smith'',
                    contact_phoneNumber = ''0400 123 456'',
                    contact_emailAddress = ''customer@example.com'' \<rparr>"
proof -
  have u: "\<not> upstream_has no_key ''job-999''" "\<not> upstream_has live ''job-002-uuid''"
    by (simp_all add: upstream_has_def no_key_def live_def createApiClient_def)
  have f: "\<not> fallback_has ''job-999''" "fallback_has ''job-002-uuid''"
    by (simp_all add: fallback_has_def getMockJobs_def)
  from booking_not_found [of no_key "''job-999''" john] u(1) f(1)
  have a: "getJobById no_key ''job-999'' = None \<and>
     get_booking no_key john ''job-999'' = Failure 404 ''Not Found'' ''Booking not found''"
    by blast
  from booking_not_found [of live "''job-002-uuid''" john] u(2) f(2)
  have b: "\<exists>j0 j b. j0 \<in> set getMockJobs \<and> uuid j0 = Some ''job-002-uuid'' \<and>
      getJobById live ''job-002-uuid'' = Some j \<and>
      j = j0\<lparr> job_notes := Some ''Customer prefers morning appointments. Gate code is 1234.'',
               contact_first := Some ''John'', contact_last := Some ''Smith'',
               contact_phone := Some ''0400 123 456'',
               contact_email := Some ''customer@example.com'' \<rparr> \<and>
      get_booking live john ''job-002-uuid'' = Success 200 b \<and>
      Some (address b) = job_address j0 \<and> Some (description b) = job_description j0"
    by blast
  from u f a b fallback_job_2(4) show ?thesis by blast
qed

end
